theory Spec2Isabelle
  imports Main "HOL-Library.Word"
begin

section \<open>ShaderAssist: a shallow embedding of shaderassist.cpp\<close>

text \<open>
  The development follows the source file top to bottom: the configuration record, the
  global state, \<open>compileShader\<close>, the body of the polling loop of \<open>watchShaders\<close>,
  \<open>parseIniFile\<close> and the start of \<open>main\<close>. Library calls (\<open>std::string\<close>,
  \<open>std::map\<close>, \<open>std::filesystem\<close>, \<open>std::chrono\<close>) are modelled by small executable
  functions whose behaviour is that of the C++ standard; where the standard leaves a read
  undefined or throws, the model returns an error value.
\<close>

subsection \<open>Errors\<close>

datatype error =
    OutOfRange \<comment> \<open>\<open>std::out_of_range\<close>, thrown by \<open>substr\<close> when \<open>pos > size()\<close>\<close>
  | OutOfBoundsRead \<comment> \<open>\<open>operator[]\<close> with \<open>pos > size()\<close>: undefined behaviour\<close>

subsection \<open>\<open>std::string\<close>\<close>

type_synonym size_t = "64 word"

definition npos :: size_t where
  "npos = - 1"

text \<open>\<open>s.find(c)\<close>: the index of the first occurrence of \<open>c\<close>, or \<open>npos\<close>.\<close>

definition string_find :: "string \<Rightarrow> char \<Rightarrow> size_t" where
  "string_find s c =
     (if c \<in> set s then of_nat (length (takeWhile (\<lambda>x. x \<noteq> c) s)) else npos)"

text \<open>
  \<open>s.substr(pos, count)\<close>: throws when \<open>pos > size()\<close>; a \<open>count\<close> of \<open>npos\<close>, or one
  that reaches past the end, gives the rest of the string from \<open>pos\<close>.
\<close>

definition substr :: "string \<Rightarrow> size_t \<Rightarrow> size_t \<Rightarrow> error + string" where
  "substr s pos count =
     (if length s < unat pos then Inl OutOfRange
      else if count = npos then Inr (drop (unat pos) s)
      else Inr (take (unat count) (drop (unat pos) s)))"

text \<open>
  \<open>s[pos]\<close>: the character at \<open>pos\<close>; the terminating null character when
  \<open>pos = size()\<close>; undefined beyond.
\<close>

definition string_index :: "string \<Rightarrow> nat \<Rightarrow> error + char" where
  "string_index s pos =
     (if pos < length s then Inr (s ! pos)
      else if pos = length s then Inr (CHR 0x00)
      else Inl OutOfBoundsRead)"

subsection \<open>Configuration\<close>

record Config =
  CompileOnStartup :: bool
  UseGoogleSPIRV :: bool
  GenerateMetaData :: bool
  GLSLLangValidatorPath :: string
  GLSLCPath :: string
  ShaderSourcePath :: string
  SPIRVOutputPath :: string
  SPIRVExt :: string
  VSExt :: string
  FSExt :: string
  CSExt :: string
  GSExt :: string

subsection \<open>\<open>compileShader\<close>\<close>

text \<open>The local variable \<open>command\<close> of \<open>compileShader\<close>.\<close>

definition compile_command :: "Config \<Rightarrow> string \<Rightarrow> string \<Rightarrow> string" where
  "compile_command config filename ext =
     (if UseGoogleSPIRV config then
        GLSLCPath config @ '' '' @ filename @ ext @ '' -o '' @ SPIRVOutputPath config
          @ ''/'' @ filename @ ext @ SPIRVExt config
      else
        GLSLLangValidatorPath config @ '' - V '' @ filename @ ext @ '' -o ''
          @ SPIRVOutputPath config @ ''/'' @ filename @ ext @ SPIRVExt config)"

text \<open>The argument of \<open>system\<close>, which depends on the platform the file is built for.\<close>

datatype platform = Win32 | Unix | OtherPlatform

definition system_argument :: "platform \<Rightarrow> string \<Rightarrow> string" where
  "system_argument pf command =
     (case pf of
        Win32 \<Rightarrow> command @ '' > nul''
      | Unix \<Rightarrow> command @ '' > /dev/null''
      | OtherPlatform \<Rightarrow> command)"

subsection \<open>Time stamps\<close>

text \<open>
  A \<open>fs::file_time_type\<close> is a count of clock ticks since the clock's epoch. The call
  \<open>fs::file_time_type::clock::to_time_t\<close> exists where the file clock is the system
  clock; its tick is a fraction of a second (a nanosecond in libstdc++), and the
  conversion to whole seconds truncates towards zero.
\<close>

type_synonym file_time_type = int
type_synonym time_t = int

definition ticks_per_second :: int where
  "ticks_per_second = 1000000000"

definition to_time_t :: "file_time_type \<Rightarrow> time_t" where
  "to_time_t t =
     (if 0 \<le> t then t div ticks_per_second else - ((- t) div ticks_per_second))"

subsection \<open>Paths and directories\<close>

text \<open>
  The \<open>fs::path\<close> of a directory entry is the directory that was iterated followed by the
  entry's file name. \<open>extension()\<close> is the part of the file name from its last period on,
  unless the name is \<open>.\<close> or \<open>..\<close>, has no period, or has its only period in front;
  \<open>stem()\<close> is the file name without that part.
\<close>

record path =
  parent_dir :: string
  file_name :: string

definition path_extension :: "string \<Rightarrow> string" where
  "path_extension f =
     (if f = ''.'' \<or> f = ''..'' then []
      else if CHR ''.'' \<in> set f then
        (let i = length f - Suc (length (takeWhile (\<lambda>c. c \<noteq> CHR ''.'') (rev f)))
         in if i = 0 then [] else drop i f)
      else [])"

definition path_stem :: "string \<Rightarrow> string" where
  "path_stem f = take (length f - length (path_extension f)) f"

text \<open>
  One entry as \<open>fs::directory_iterator\<close> yields it, with what \<open>fs::is_regular_file\<close> and
  \<open>fs::last_write_time\<close> answer for it during the pass. A file system maps a directory to
  its entries in iteration order. The file system calls are taken to succeed: a pass in
  which one of them throws is not described.
\<close>

record dir_entry =
  entry_name :: string
  is_regular_file :: bool
  last_write_time :: file_time_type

type_synonym filesystem = "string \<Rightarrow> dir_entry list"

definition directory_iterator :: "filesystem \<Rightarrow> string \<Rightarrow> dir_entry list" where
  "directory_iterator files dir = files dir"

definition entry_path :: "string \<Rightarrow> dir_entry \<Rightarrow> path" where
  "entry_path dir p = \<lparr>parent_dir = dir, file_name = entry_name p\<rparr>"

text \<open>\<open>operator/\<close> on a directory and a relative name.\<close>

definition path_append :: "string \<Rightarrow> string \<Rightarrow> string" where
  "path_append d n = (if d \<noteq> [] \<and> last d \<noteq> CHR ''/'' then d @ ''/'' @ n else d @ n)"

subsection \<open>Global state\<close>

record ShaderEntry =
  LastWriteTime :: file_time_type

text \<open>
  The three flags, the map of watched shaders, and the calls of \<open>compileShader\<close> made so
  far, each with its two arguments, oldest first.
\<close>

record watch_state =
  sApplicationExit :: bool
  sRecompile :: bool
  sFirstIteration :: bool
  sShaderEntries :: "path \<rightharpoonup> ShaderEntry"
  compile_calls :: "(string \<times> string) list"

definition initial_state :: watch_state where
  "initial_state =
     \<lparr>sApplicationExit = False, sRecompile = False, sFirstIteration = True,
      sShaderEntries = Map.empty, compile_calls = []\<rparr>"

definition compileShader :: "string \<Rightarrow> string \<Rightarrow> watch_state \<Rightarrow> watch_state" where
  "compileShader filename ext s = s\<lparr>compile_calls := compile_calls s @ [(filename, ext)]\<rparr>"

text \<open>The commands \<open>compileShader\<close> has handed to \<open>system\<close>.\<close>

definition system_calls :: "platform \<Rightarrow> Config \<Rightarrow> watch_state \<Rightarrow> string list" where
  "system_calls pf config s =
     map (\<lambda>(filename, ext). system_argument pf (compile_command config filename ext))
       (compile_calls s)"

subsection \<open>\<open>watchShaders\<close>\<close>

definition validFileExts :: "Config \<Rightarrow> string list" where
  "validFileExts config = [VSExt config, FSExt config, GSExt config, CSExt config]"

text \<open>The body of the \<open>for\<close> loop over the directory, for one entry \<open>p\<close>.\<close>

definition process_entry :: "Config \<Rightarrow> string \<Rightarrow> watch_state \<Rightarrow> dir_entry \<Rightarrow> watch_state" where
  "process_entry config dir s p =
     (if is_regular_file p then
        (let filename = path_stem (entry_name p);
             extension = path_extension (entry_name p)
         in if extension \<in> set (validFileExts config) then
              (case sShaderEntries s (entry_path dir p) of
                 Some entry \<Rightarrow>
                   (let currFileTimeType = last_write_time p;
                        lastWriteTime = to_time_t (LastWriteTime entry);
                        currentWriteTime = to_time_t currFileTimeType
                    in if currentWriteTime - lastWriteTime > 1 \<or> sRecompile s then
                         (compileShader filename extension s)
                           \<lparr>sShaderEntries := (sShaderEntries s)
                              (entry_path dir p \<mapsto> \<lparr>LastWriteTime = currFileTimeType\<rparr>)\<rparr>
                       else s)
               | None \<Rightarrow>
                   (let s1 = s\<lparr>sShaderEntries := (sShaderEntries s)
                                (entry_path dir p \<mapsto> \<lparr>LastWriteTime = last_write_time p\<rparr>)\<rparr>
                    in if \<not> sFirstIteration s \<or> CompileOnStartup config then
                         compileShader filename extension s1
                       else s1))
            else s)
      else s)"

text \<open>One pass of the \<open>while\<close> loop: the directory pass, then the two flags are cleared.\<close>

definition watch_cycle :: "Config \<Rightarrow> string \<Rightarrow> dir_entry list \<Rightarrow> watch_state \<Rightarrow> watch_state" where
  "watch_cycle config dir entries s =
     (foldl (process_entry config dir) s entries)
       \<lparr>sFirstIteration := False, sRecompile := False\<rparr>"

text \<open>
  The input loop of \<open>main\<close> on the lines read from standard input: a quit command sets
  the exit flag and leaves the loop, a recompile command sets the recompile flag.
\<close>

fun user_input :: "string list \<Rightarrow> watch_state \<Rightarrow> watch_state" where
  "user_input [] s = s"
| "user_input (line # rest) s =
     (if line = ''-q'' \<or> line = ''-quit'' \<or> line = ''quit'' \<or> line = ''exit'' then
        s\<lparr>sApplicationExit := True\<rparr>
      else if line = ''-r'' \<or> line = ''-recompile'' then
        user_input rest (s\<lparr>sRecompile := True\<rparr>)
      else user_input rest s)"

text \<open>
  The \<open>while\<close> loop runs until the exit flag is seen, so a run is described by what it
  meets at each pass: the lines the user has entered since the pass before, and the file
  system as the pass finds it. The loop over a finite list of such observations returns
  the state reached after them. The input thread only ever sets the two atomic flags; its
  writes are taken at the start of a pass, so within a pass the flags are those the pass
  started with.
\<close>

record observation =
  typed :: "string list"
  files :: filesystem

fun watchShaders :: "Config \<Rightarrow> string \<Rightarrow> observation list \<Rightarrow> watch_state \<Rightarrow> watch_state" where
  "watchShaders config dir [] s = s"
| "watchShaders config dir (ob # obs) s =
     (let s1 = user_input (typed ob) s
      in if sApplicationExit s1 then s1
         else watchShaders config dir obs
                (watch_cycle config dir (directory_iterator (files ob) dir) s1))"

subsection \<open>\<open>parseIniFile\<close>\<close>

text \<open>\<open>m[k]\<close> on a \<open>std::map\<close> of strings, read: a key not present gives the empty string.\<close>

definition map_index :: "(string \<rightharpoonup> string) \<Rightarrow> string \<Rightarrow> string" where
  "map_index m k = (case m k of None \<Rightarrow> [] | Some v \<Rightarrow> v)"

text \<open>\<open>line[0]\<close>, which on the empty line is the terminating null character.\<close>

definition first_char :: "string \<Rightarrow> char" where
  "first_char line = (case line of [] \<Rightarrow> CHR 0x00 | c # _ \<Rightarrow> c)"

text \<open>The body of the \<open>getline\<close> loop, for one line.\<close>

definition parse_line :: "(string \<rightharpoonup> string) \<Rightarrow> string \<Rightarrow> error + (string \<rightharpoonup> string)" where
  "parse_line iniKeyValuePairs line =
     (if first_char line \<noteq> CHR ''#'' then
        (case substr line (string_find line (CHR ''='') + 1) npos of
           Inl e \<Rightarrow> Inl e
         | Inr v \<Rightarrow>
             (case substr line 0 (string_find line (CHR ''='')) of
                Inl e \<Rightarrow> Inl e
              | Inr k \<Rightarrow> Inr (iniKeyValuePairs(k \<mapsto> v))))
      else Inr iniKeyValuePairs)"

text \<open>The \<open>getline\<close> loop over the lines of the file.\<close>

fun parse_lines :: "(string \<rightharpoonup> string) \<Rightarrow> string list \<Rightarrow> error + (string \<rightharpoonup> string)" where
  "parse_lines m [] = Inr m"
| "parse_lines m (line # rest) =
     (case parse_line m line of Inl e \<Rightarrow> Inl e | Inr m' \<Rightarrow> parse_lines m' rest)"

text \<open>
  The assignments to the global \<open>config\<close>. \<open>GenerateMetaData\<close> is never assigned and keeps
  the value a global starts with.
\<close>

definition config_of :: "(string \<rightharpoonup> string) \<Rightarrow> Config" where
  "config_of iniKeyValuePairs =
     \<lparr>CompileOnStartup = (map_index iniKeyValuePairs ''compile_on_startup'' = ''true''),
      UseGoogleSPIRV = (map_index iniKeyValuePairs ''use_google_spirv'' = ''true''),
      GenerateMetaData = False,
      GLSLLangValidatorPath = map_index iniKeyValuePairs ''glsl_lang_validator_path'',
      GLSLCPath = map_index iniKeyValuePairs ''glsl_c_path'',
      ShaderSourcePath = map_index iniKeyValuePairs ''shader_source_path'',
      SPIRVOutputPath = map_index iniKeyValuePairs ''spirv_output_path'',
      SPIRVExt = map_index iniKeyValuePairs ''spirv_ext'',
      VSExt = map_index iniKeyValuePairs ''vs_ext'',
      FSExt = map_index iniKeyValuePairs ''fs_ext'',
      CSExt = map_index iniKeyValuePairs ''cs_ext'',
      GSExt = map_index iniKeyValuePairs ''gs_ext''\<rparr>"

definition parseIniFile :: "string list \<Rightarrow> error + Config" where
  "parseIniFile iniFile =
     (case parse_lines Map.empty iniFile of
        Inl e \<Rightarrow> Inl e
      | Inr iniKeyValuePairs \<Rightarrow> Inr (config_of iniKeyValuePairs))"

subsection \<open>\<open>main\<close>\<close>

text \<open>
  The test that decides whether the output directory is created under the current
  directory. The three comparisons are joined by \<open>&&\<close>, so a later character is read only
  when the earlier comparisons held.
\<close>

definition output_path_is_relative :: "string \<Rightarrow> error + bool" where
  "output_path_is_relative out =
     (case string_index out 0 of
        Inl e \<Rightarrow> Inl e
      | Inr c0 \<Rightarrow>
          if c0 = CHR ''/'' then Inr False
          else if c0 = CHR 0x5C then Inr False
          else (case string_index out 1 of
                  Inl e \<Rightarrow> Inl e
                | Inr c1 \<Rightarrow> Inr (c1 \<noteq> CHR '':'')))"

text \<open>
  A run of the program: the exit code, the directory created for the output, the directory
  handed to \<open>watchShaders\<close> and the state the watcher reaches. The configuration file is
  given by its lines, or is absent.
\<close>

record run =
  exit_code :: int
  created_directory :: "string option"
  watched_directory :: "string option"
  final_state :: watch_state

definition main :: "string \<Rightarrow> string list option \<Rightarrow> observation list \<Rightarrow> error + run" where
  "main current_path ini obs =
     (let currentPath = current_path in
      case ini of
        None \<Rightarrow>
          Inr \<lparr>exit_code = 1, created_directory = None, watched_directory = None,
               final_state = initial_state\<rparr>
      | Some iniFile \<Rightarrow>
          (case parseIniFile iniFile of
             Inl e \<Rightarrow> Inl e
           | Inr config \<Rightarrow>
               (case output_path_is_relative (SPIRVOutputPath config) of
                  Inl e \<Rightarrow> Inl e
                | Inr relative \<Rightarrow>
                    Inr \<lparr>exit_code = 0,
                         created_directory =
                           Some (if relative
                                 then path_append current_path (SPIRVOutputPath config)
                                 else SPIRVOutputPath config),
                         watched_directory = Some currentPath,
                         final_state = watchShaders config currentPath obs initial_state\<rparr>)))"

subsection \<open>Vocabulary of the statements\<close>

text \<open>
  The two arguments \<open>compileShader\<close> receives for a directory entry. The number of compiles
  of an entry is the number of times this pair occurs in \<open>compile_calls\<close>.
\<close>

definition call_of :: "dir_entry \<Rightarrow> string \<times> string" where
  "call_of p = (path_stem (entry_name p), path_extension (entry_name p))"

subsection \<open>Example data\<close>

text \<open>
  A configuration, a regular file with a given modification time, a state that tracks one
  file, a configuration file and a file system with two directories.
\<close>

definition example_config :: Config where
  "example_config =
     \<lparr>CompileOnStartup = False, UseGoogleSPIRV = True, GenerateMetaData = False,
      GLSLLangValidatorPath = ''glslangValidator'', GLSLCPath = ''glslc'',
      ShaderSourcePath = ''/proj/shaders'', SPIRVOutputPath = ''spirv'', SPIRVExt = ''.spv'',
      VSExt = ''.vert'', FSExt = ''.frag'', CSExt = ''.comp'', GSExt = ''.geom''\<rparr>"

definition shader_file :: "string \<Rightarrow> file_time_type \<Rightarrow> dir_entry" where
  "shader_file n t = \<lparr>entry_name = n, is_regular_file = True, last_write_time = t\<rparr>"

definition tracked_state :: "string \<Rightarrow> string \<Rightarrow> file_time_type \<Rightarrow> watch_state" where
  "tracked_state dir n t =
     \<lparr>sApplicationExit = False, sRecompile = False, sFirstIteration = False,
      sShaderEntries = [\<lparr>parent_dir = dir, file_name = n\<rparr> \<mapsto> \<lparr>LastWriteTime = t\<rparr>],
      compile_calls = []\<rparr>"

definition example_ini :: "string list" where
  "example_ini =
     [''# ShaderAssist'', ''compile_on_startup=true'', ''use_google_spirv=true'',
      ''glsl_c_path=glslc'', ''shader_source_path=/proj/shaders'',
      ''spirv_output_path=spirv'', ''spirv_ext=.spv'', ''vs_ext=.vert'', ''fs_ext=.frag'']"

definition example_files :: filesystem where
  "example_files dir =
     (if dir = ''/proj'' then [shader_file ''x.vert'' 5000000000]
      else if dir = ''/proj/shaders'' then [shader_file ''a.vert'' 5000000000]
      else [])"

section \<open>Facts about the library models\<close>

lemmas example_defs =
  example_config_def shader_file_def tracked_state_def validFileExts_def path_extension_def
  path_stem_def call_of_def entry_path_def to_time_t_def ticks_per_second_def Let_def

lemma path_extension_suffix: "\<exists>i\<le>length f. path_extension f = drop i f"
proof (cases "path_extension f = []")
  case True
  then show ?thesis by (intro exI[of _ "length f"]) simp
next
  case False
  then show ?thesis
    by (auto simp: path_extension_def Let_def split: if_splits intro!: exI[of _ "length f - Suc (length (takeWhile (\<lambda>c. c \<noteq> CHR ''.'') (rev f)))"])
qed

lemma path_stem_extension: "path_stem f @ path_extension f = f"
proof -
  obtain i where i: "i \<le> length f" "path_extension f = drop i f"
    using path_extension_suffix by blast
  then show ?thesis by (simp add: path_stem_def)
qed

lemma call_of_inj: "call_of p = call_of q \<Longrightarrow> entry_name p = entry_name q"
  by (metis call_of_def prod.inject path_stem_extension)

lemma entry_path_inj: "entry_path dir p = entry_path dir q \<longleftrightarrow> entry_name p = entry_name q"
  by (simp add: entry_path_def)

lemma string_find_absent: "c \<notin> set s \<Longrightarrow> string_find s c = npos"
  by (simp add: string_find_def)

lemma unat_succ_le: "unat (of_nat k + 1 :: size_t) \<le> Suc k"
proof -
  have "unat (of_nat k + 1 :: size_t) \<le> unat (of_nat k :: size_t) + unat (1 :: size_t)"
    by (simp add: unat_word_ariths)
  also have "\<dots> \<le> k + 1"
    by (simp add: unat_of_nat)
  finally show ?thesis by simp
qed

section \<open>One directory entry\<close>

text \<open>
  The loop body leaves the flags alone, touches the map only at the entry's own path and
  the call list only by the entry's own pair of arguments.
\<close>

lemma process_entry_flags:
  "sRecompile (process_entry config dir s p) = sRecompile s"
  "sFirstIteration (process_entry config dir s p) = sFirstIteration s"
  "sApplicationExit (process_entry config dir s p) = sApplicationExit s"
  by (simp_all add: process_entry_def compileShader_def Let_def split: option.splits)

lemma process_entry_other_path:
  "q \<noteq> entry_path dir p \<Longrightarrow> sShaderEntries (process_entry config dir s p) q = sShaderEntries s q"
  by (simp add: process_entry_def compileShader_def Let_def split: option.splits)

lemma process_entry_other_call:
  "c \<noteq> call_of p \<Longrightarrow>
   count_list (compile_calls (process_entry config dir s p)) c = count_list (compile_calls s) c"
  by (simp add: process_entry_def compileShader_def call_of_def Let_def split: option.splits)

lemma process_entry_skipped:
  "\<not> is_regular_file p \<or> path_extension (entry_name p) \<notin> set (validFileExts config) \<Longrightarrow>
   process_entry config dir s p = s"
  by (auto simp: process_entry_def Let_def)

lemma process_entry_tracked:
  assumes "is_regular_file p"
    and "path_extension (entry_name p) \<in> set (validFileExts config)"
    and "sShaderEntries s (entry_path dir p) = Some entry"
  shows "process_entry config dir s p =
     (if to_time_t (last_write_time p) - to_time_t (LastWriteTime entry) > 1 \<or> sRecompile s
      then s\<lparr>compile_calls := compile_calls s @ [call_of p],
             sShaderEntries := (sShaderEntries s)
               (entry_path dir p \<mapsto> \<lparr>LastWriteTime = last_write_time p\<rparr>)\<rparr>
      else s)"
  using assms by (simp add: process_entry_def compileShader_def call_of_def Let_def)

lemma process_entry_new:
  assumes "is_regular_file p"
    and "path_extension (entry_name p) \<in> set (validFileExts config)"
    and "sShaderEntries s (entry_path dir p) = None"
  shows "process_entry config dir s p =
     (if \<not> sFirstIteration s \<or> CompileOnStartup config
      then s\<lparr>sShaderEntries := (sShaderEntries s)
               (entry_path dir p \<mapsto> \<lparr>LastWriteTime = last_write_time p\<rparr>),
             compile_calls := compile_calls s @ [call_of p]\<rparr>
      else s\<lparr>sShaderEntries := (sShaderEntries s)
               (entry_path dir p \<mapsto> \<lparr>LastWriteTime = last_write_time p\<rparr>)\<rparr>)"
  using assms by (simp add: process_entry_def compileShader_def call_of_def Let_def)

lemma process_entry_after_other:
  assumes "entry_name x \<noteq> entry_name p"
  shows "sShaderEntries (process_entry config dir (process_entry config dir s x) p) (entry_path dir p)
           = sShaderEntries (process_entry config dir s p) (entry_path dir p)"
    and "count_list (compile_calls (process_entry config dir (process_entry config dir s x) p)) (call_of p)
           = count_list (compile_calls (process_entry config dir s p)) (call_of p)"
proof -
  let ?s1 = "process_entry config dir s x"
  have a: "sShaderEntries ?s1 (entry_path dir p) = sShaderEntries s (entry_path dir p)"
    using assms by (simp add: process_entry_other_path entry_path_inj)
  have b: "count_list (compile_calls ?s1) (call_of p) = count_list (compile_calls s) (call_of p)"
    using assms call_of_inj by (metis process_entry_other_call)
  show "sShaderEntries (process_entry config dir ?s1 p) (entry_path dir p)
           = sShaderEntries (process_entry config dir s p) (entry_path dir p)"
    unfolding process_entry_def[of config dir ?s1 p] process_entry_def[of config dir s p]
    by (simp add: a process_entry_flags compileShader_def Let_def split: option.splits)
  show "count_list (compile_calls (process_entry config dir ?s1 p)) (call_of p)
           = count_list (compile_calls (process_entry config dir s p)) (call_of p)"
    unfolding process_entry_def[of config dir ?s1 p] process_entry_def[of config dir s p]
    by (simp add: a b process_entry_flags compileShader_def Let_def split: option.splits)
qed

lemma process_entry_settles:
  assumes "is_regular_file p"
    and "path_extension (entry_name p) \<in> set (validFileExts config)"
  shows "\<exists>entry. sShaderEntries (process_entry config dir s p) (entry_path dir p) = Some entry
           \<and> to_time_t (last_write_time p) - to_time_t (LastWriteTime entry) \<le> 1"
proof (cases "sShaderEntries s (entry_path dir p)")
  case None
  then show ?thesis
    by (simp add: process_entry_new[OF assms])
next
  case (Some entry)
  then show ?thesis
    by (simp add: process_entry_tracked[OF assms Some])
qed

lemma process_entry_new_key:
  assumes "sShaderEntries (process_entry config dir s p) q \<noteq> None"
    and "sShaderEntries s q = None"
  shows "q = entry_path dir p \<and> is_regular_file p
         \<and> path_extension (entry_name p) \<in> set (validFileExts config)"
proof -
  have "process_entry config dir s p \<noteq> s"
    using assms by auto
  then have r: "is_regular_file p \<and> path_extension (entry_name p) \<in> set (validFileExts config)"
    using process_entry_skipped by blast
  have "q = entry_path dir p"
    using assms process_entry_other_path by fastforce
  then show ?thesis using r by simp
qed

lemma process_entry_unrecognized:
  assumes "path_extension n \<notin> set (validFileExts config)"
  shows "sShaderEntries (process_entry config dir s x) \<lparr>parent_dir = dir, file_name = n\<rparr>
           = sShaderEntries s \<lparr>parent_dir = dir, file_name = n\<rparr>"
    and "count_list (compile_calls (process_entry config dir s x)) (path_stem n, path_extension n)
           = count_list (compile_calls s) (path_stem n, path_extension n)"
proof -
  show "sShaderEntries (process_entry config dir s x) \<lparr>parent_dir = dir, file_name = n\<rparr>
           = sShaderEntries s \<lparr>parent_dir = dir, file_name = n\<rparr>"
  proof (cases "entry_name x = n")
    case True
    then show ?thesis using assms by (simp add: process_entry_skipped)
  next
    case False
    then show ?thesis by (simp add: process_entry_other_path entry_path_def)
  qed
  show "count_list (compile_calls (process_entry config dir s x)) (path_stem n, path_extension n)
           = count_list (compile_calls s) (path_stem n, path_extension n)"
  proof (cases "path_extension (entry_name x) = path_extension n")
    case True
    then show ?thesis using assms by (simp add: process_entry_skipped)
  next
    case False
    then show ?thesis by (simp add: process_entry_other_call call_of_def)
  qed
qed

section \<open>One pass over the directory\<close>

text \<open>
  A directory holds each name once, so the statements about a pass take a listing whose
  entry names are distinct. For such a listing, what a pass does to an entry's map slot
  and to the number of its compiles is what the loop body does to them on the state the
  pass started from.
\<close>

lemma foldl_flags:
  "sRecompile (foldl (process_entry config dir) s es) = sRecompile s"
  "sFirstIteration (foldl (process_entry config dir) s es) = sFirstIteration s"
  "sApplicationExit (foldl (process_entry config dir) s es) = sApplicationExit s"
  by (induction es arbitrary: s) (simp_all add: process_entry_flags)

lemma foldl_other_path:
  "q \<notin> entry_path dir ` set es \<Longrightarrow>
   sShaderEntries (foldl (process_entry config dir) s es) q = sShaderEntries s q"
  by (induction es arbitrary: s) (auto simp: process_entry_other_path)

lemma entry_path_notin:
  "entry_name p \<notin> entry_name ` set es \<Longrightarrow> entry_path dir p \<notin> entry_path dir ` set es"
  by (auto simp: entry_path_def)

lemma foldl_other_call:
  "c \<notin> call_of ` set es \<Longrightarrow>
   count_list (compile_calls (foldl (process_entry config dir) s es)) c
     = count_list (compile_calls s) c"
  by (induction es arbitrary: s) (simp_all add: process_entry_other_call)

lemma call_of_notin:
  "entry_name p \<notin> entry_name ` set es \<Longrightarrow> call_of p \<notin> call_of ` set es"
  using call_of_inj by (metis image_iff)

lemma foldl_entry:
  assumes "distinct (map entry_name es)" and "p \<in> set es"
  shows "sShaderEntries (foldl (process_entry config dir) s es) (entry_path dir p)
           = sShaderEntries (process_entry config dir s p) (entry_path dir p)
         \<and> count_list (compile_calls (foldl (process_entry config dir) s es)) (call_of p)
           = count_list (compile_calls (process_entry config dir s p)) (call_of p)"
  using assms
proof (induction es arbitrary: s)
  case Nil
  then show ?case by simp
next
  case (Cons x xs)
  show ?case
  proof (cases "entry_name x = entry_name p")
    case True
    have notin: "entry_name p \<notin> entry_name ` set xs"
      using Cons.prems(1) True by auto
    have "x = p"
      using Cons.prems True notin by auto
    then show ?thesis
      using notin by (simp add: foldl_other_path foldl_other_call call_of_notin entry_path_notin)
  next
    case False
    then have "p \<in> set xs" and "distinct (map entry_name xs)"
      using Cons.prems by auto
    then show ?thesis
      using Cons.IH[of "process_entry config dir s x"] False
      by (simp add: process_entry_after_other)
  qed
qed

lemma watch_cycle_entry:
  assumes "distinct (map entry_name es)" and "p \<in> set es"
  shows "sShaderEntries (watch_cycle config dir es s) (entry_path dir p)
           = sShaderEntries (process_entry config dir s p) (entry_path dir p)"
    and "count_list (compile_calls (watch_cycle config dir es s)) (call_of p)
           = count_list (compile_calls (process_entry config dir s p)) (call_of p)"
  using foldl_entry[OF assms] by (simp_all add: watch_cycle_def)

lemma watch_cycle_flags:
  "\<not> sRecompile (watch_cycle config dir es s)"
  "\<not> sFirstIteration (watch_cycle config dir es s)"
  "sApplicationExit (watch_cycle config dir es s) = sApplicationExit s"
  by (simp_all add: watch_cycle_def foldl_flags)

lemma foldl_fixed:
  "(\<And>x. x \<in> set xs \<Longrightarrow> f s x = s) \<Longrightarrow> foldl f s xs = s"
  by (induction xs) simp_all

lemma watch_cycle_settled:
  assumes "distinct (map entry_name entries)" and "p \<in> set entries"
  shows "process_entry config dir (watch_cycle config dir entries s) p
           = watch_cycle config dir entries s"
proof (cases "is_regular_file p \<and> path_extension (entry_name p) \<in> set (validFileExts config)")
  case False
  then show ?thesis
    by (simp add: process_entry_skipped)
next
  case True
  then have r: "is_regular_file p" "path_extension (entry_name p) \<in> set (validFileExts config)"
    by simp_all
  obtain entry where
    e: "sShaderEntries (process_entry config dir s p) (entry_path dir p) = Some entry"
    and le: "to_time_t (last_write_time p) - to_time_t (LastWriteTime entry) \<le> 1"
    using process_entry_settles[OF r] by blast
  have "sShaderEntries (watch_cycle config dir entries s) (entry_path dir p) = Some entry"
    using e by (simp add: watch_cycle_entry[OF assms])
  then show ?thesis
    using le by (simp add: process_entry_tracked[OF r] watch_cycle_flags)
qed

lemma watch_cycle_unrecognized:
  assumes "path_extension n \<notin> set (validFileExts config)"
  shows "sShaderEntries (watch_cycle config dir es s) \<lparr>parent_dir = dir, file_name = n\<rparr>
           = sShaderEntries s \<lparr>parent_dir = dir, file_name = n\<rparr>
         \<and> count_list (compile_calls (watch_cycle config dir es s)) (path_stem n, path_extension n)
           = count_list (compile_calls s) (path_stem n, path_extension n)"
  unfolding watch_cycle_def
  by (induction es arbitrary: s) (simp_all add: process_entry_unrecognized[OF assms])

lemma watch_cycle_new_key:
  assumes "sShaderEntries (watch_cycle config dir es s) q \<noteq> None"
    and "sShaderEntries s q = None"
  shows "\<exists>p \<in> set es. q = entry_path dir p \<and> is_regular_file p
           \<and> path_extension (entry_name p) \<in> set (validFileExts config)"
proof -
  have "sShaderEntries (foldl (process_entry config dir) s es) q \<noteq> None"
    using assms(1) by (simp add: watch_cycle_def)
  then show ?thesis
    using assms(2)
  proof (induction es arbitrary: s)
    case Nil
    then show ?case by simp
  next
    case (Cons x xs)
    show ?case
    proof (cases "sShaderEntries (process_entry config dir s x) q")
      case None
      then show ?thesis using Cons.IH[of "process_entry config dir s x"] Cons.prems(1) by auto
    next
      case (Some e)
      then show ?thesis using process_entry_new_key[of config dir s x q] Cons.prems(2) by auto
    qed
  qed
qed

section \<open>The loop and the input thread\<close>

lemma user_input_first: "sFirstIteration (user_input ls s) = sFirstIteration s"
  by (induction ls arbitrary: s) simp_all

lemma user_input_frame:
  "sShaderEntries (user_input ls s) = sShaderEntries s"
  "compile_calls (user_input ls s) = compile_calls s"
  by (induction ls arbitrary: s) simp_all

lemma watchShaders_first:
  "\<not> sFirstIteration s \<Longrightarrow> \<not> sFirstIteration (watchShaders config dir obs s)"
  by (induction obs arbitrary: s) (simp_all add: Let_def user_input_first watch_cycle_flags)

section \<open>The configuration file\<close>

text \<open>No line makes \<open>parseIniFile\<close> fail: both \<open>substr\<close> calls stay within the line.\<close>

lemma parse_line_total: "\<exists>m'. parse_line m line = Inr m'"
proof (cases "CHR ''='' \<in> set line")
  case False
  then show ?thesis
    by (simp add: parse_line_def string_find_absent substr_def npos_def)
next
  case True
  let ?k = "length (takeWhile (\<lambda>x. x \<noteq> CHR ''='') line)"
  have "takeWhile (\<lambda>x. x \<noteq> CHR ''='') line \<noteq> line"
    using True by (simp add: takeWhile_eq_all_conv)
  moreover have "?k \<le> length line"
    by (rule length_takeWhile_le)
  ultimately have "?k < length line"
    by (metis le_neq_implies_less takeWhile_eq_take take_all order_refl)
  then have a: "unat (of_nat ?k + 1 :: size_t) \<le> length line"
    using unat_succ_le[of ?k] by simp
  have "?k mod 2 ^ 64 \<le> ?k" by simp
  then have b: "unat (of_nat ?k :: size_t) \<le> length line"
    using \<open>?k < length line\<close> by (simp add: unat_of_nat)
  show ?thesis
    using True a b by (simp add: parse_line_def string_find_def substr_def)
qed

lemma parse_lines_total: "\<exists>m'. parse_lines m ls = Inr m'"
proof (induction ls arbitrary: m)
  case Nil
  then show ?case by simp
next
  case (Cons l ls)
  obtain m1 where "parse_line m l = Inr m1"
    using parse_line_total by blast
  then show ?case using Cons.IH[of m1] by simp
qed

lemma parseIniFile_total: "\<exists>config. parseIniFile iniFile = Inr config"
  using parse_lines_total[of Map.empty iniFile] by (auto simp: parseIniFile_def)

lemma example_ini_parsed:
  "parseIniFile example_ini =
     Inr \<lparr>CompileOnStartup = True, UseGoogleSPIRV = True, GenerateMetaData = False,
          GLSLLangValidatorPath = [], GLSLCPath = ''glslc'',
          ShaderSourcePath = ''/proj/shaders'', SPIRVOutputPath = ''spirv'', SPIRVExt = ''.spv'',
          VSExt = ''.vert'', FSExt = ''.frag'', CSExt = [], GSExt = []\<rparr>"
  by (simp add: example_ini_def parseIniFile_def parse_line_def string_find_def substr_def
      npos_def first_char_def config_of_def map_index_def)

section \<open>The watched directory\<close>

text \<open>
  Whatever the configuration file says, \<open>main\<close> hands the current directory to
  \<open>watchShaders\<close>, and every key a pass adds is a regular file with a recognized extension
  in the directory the pass was given.
\<close>

lemma main_watched_directory:
  "main current_path (Some iniFile) obs = Inr r \<Longrightarrow> watched_directory r = Some current_path"
  by (auto simp: main_def Let_def split: sum.splits)

text \<open>
  Claim C1. Each pass should enumerate the entries of the directory configured as
  \<open>shader_source_path\<close>, and every key of the map should be a file under that directory.
  In the run below the configuration file sets \<open>shader_source_path\<close> to \<open>/proj/shaders\<close>
  and the program is started in \<open>/proj\<close>. The directory handed to \<open>watchShaders\<close> is
  \<open>/proj\<close>: the pass tracks and compiles \<open>/proj/x.vert\<close>, a file outside the
  configured directory, and \<open>/proj/shaders/a.vert\<close> is never tracked.
\<close>

theorem main_watches_current_path:
  "map_sum id ShaderSourcePath (parseIniFile example_ini) = Inr ''/proj/shaders''
   \<and> map_sum id watched_directory
       (main ''/proj'' (Some example_ini) [\<lparr>typed = [], files = example_files\<rparr>])
     = Inr (Some ''/proj'')
   \<and> map_sum id (\<lambda>r. compile_calls (final_state r))
       (main ''/proj'' (Some example_ini) [\<lparr>typed = [], files = example_files\<rparr>])
     = Inr [(''x'', ''.vert'')]
   \<and> map_sum id (\<lambda>r. sShaderEntries (final_state r) \<lparr>parent_dir = ''/proj'', file_name = ''x.vert''\<rparr>)
       (main ''/proj'' (Some example_ini) [\<lparr>typed = [], files = example_files\<rparr>])
     = Inr (Some \<lparr>LastWriteTime = 5000000000\<rparr>)
   \<and> map_sum id (\<lambda>r. sShaderEntries (final_state r)
         \<lparr>parent_dir = ''/proj/shaders'', file_name = ''a.vert''\<rparr>)
       (main ''/proj'' (Some example_ini) [\<lparr>typed = [], files = example_files\<rparr>])
     = Inr None"
  by (simp add: main_def example_ini_parsed output_path_is_relative_def string_index_def
      initial_state_def directory_iterator_def example_files_def watch_cycle_def
      process_entry_def compileShader_def example_defs)

section \<open>The compiler command line\<close>

lemma compile_command_glslc:
  "UseGoogleSPIRV config \<Longrightarrow>
   compile_command config filename ext =
     GLSLCPath config @ '' '' @ filename @ ext @ '' -o '' @ SPIRVOutputPath config
       @ ''/'' @ filename @ ext @ SPIRVExt config"
  by (simp add: compile_command_def)

text \<open>
  Claim C2. With the validator selected the command line should read
  \<open><validatorPath> -V <basename><ext> -o <outputPath>/<basename><ext><outputExt>\<close>.
  For the validator \<open>glslangValidator\<close>, the file \<open>basic.vert\<close>, the output directory
  \<open>spirv\<close> and the output extension \<open>.spv\<close> the code builds a command whose flag is the
  two words \<open>-\<close> and \<open>V\<close>, which differs from the line the claim gives.
\<close>

theorem compile_command_validator_flag_split:
  "compile_command
     \<lparr>CompileOnStartup = False, UseGoogleSPIRV = False, GenerateMetaData = False,
      GLSLLangValidatorPath = ''glslangValidator'', GLSLCPath = ''glslc'',
      ShaderSourcePath = ''shaders'', SPIRVOutputPath = ''spirv'', SPIRVExt = ''.spv'',
      VSExt = ''.vert'', FSExt = ''.frag'', CSExt = ''.comp'', GSExt = ''.geom''\<rparr>
     ''basic'' ''.vert''
   = ''glslangValidator - V basic.vert -o spirv/basic.vert.spv''
   \<and> ''glslangValidator - V basic.vert -o spirv/basic.vert.spv''
     \<noteq> ''glslangValidator'' @ '' -V '' @ ''basic'' @ ''.vert'' @ '' -o '' @ ''spirv'' @ ''/''
         @ ''basic'' @ ''.vert'' @ ''.spv''"
  by (simp add: compile_command_def)

section \<open>Tracked files\<close>

text \<open>
  Claim C3, as amended. For a regular file with a recognized extension that is already a
  key of the map, in a pass over a directory listing: when the current modification time,
  converted to whole seconds, exceeds the stored one, converted to whole seconds, by more
  than 1, or the recompile flag is set, the pass compiles the file exactly once and stores
  the current modification time; otherwise (also when the current time is earlier than
  the stored one) the pass does not compile it and leaves the stored time as it was.
\<close>

theorem tracked_file_recompiled_iff:
  assumes "distinct (map entry_name entries)" and "p \<in> set entries"
    and "is_regular_file p"
    and "path_extension (entry_name p) \<in> set (validFileExts config)"
    and "sShaderEntries s (entry_path dir p) = Some entry"
  shows "(if to_time_t (last_write_time p) - to_time_t (LastWriteTime entry) > 1 \<or> sRecompile s
          then count_list (compile_calls (watch_cycle config dir entries s)) (call_of p)
                 = Suc (count_list (compile_calls s) (call_of p))
               \<and> sShaderEntries (watch_cycle config dir entries s) (entry_path dir p)
                 = Some \<lparr>LastWriteTime = last_write_time p\<rparr>
          else count_list (compile_calls (watch_cycle config dir entries s)) (call_of p)
                 = count_list (compile_calls s) (call_of p)
               \<and> sShaderEntries (watch_cycle config dir entries s) (entry_path dir p)
                 = Some entry)"
  using assms(5)
  by (simp add: watch_cycle_entry[OF assms(1,2)] process_entry_tracked[OF assms(3,4,5)])

text \<open>
  A file tracked with the time stamp of second 5 and modified at second 7 is compiled once
  and its time stamp is replaced.
\<close>

theorem tracked_file_recompiled_witness:
  "distinct (map entry_name [shader_file ''basic.vert'' 7000000000, shader_file ''b.frag'' 0])
   \<and> shader_file ''basic.vert'' 7000000000
       \<in> set [shader_file ''basic.vert'' 7000000000, shader_file ''b.frag'' 0]
   \<and> is_regular_file (shader_file ''basic.vert'' 7000000000)
   \<and> path_extension (entry_name (shader_file ''basic.vert'' 7000000000))
       \<in> set (validFileExts example_config)
   \<and> sShaderEntries (tracked_state ''/proj'' ''basic.vert'' 5000000000)
       (entry_path ''/proj'' (shader_file ''basic.vert'' 7000000000))
       = Some \<lparr>LastWriteTime = 5000000000\<rparr>
   \<and> count_list (compile_calls (watch_cycle example_config ''/proj''
         [shader_file ''basic.vert'' 7000000000, shader_file ''b.frag'' 0]
         (tracked_state ''/proj'' ''basic.vert'' 5000000000))) (''basic'', ''.vert'') = 1
   \<and> sShaderEntries (watch_cycle example_config ''/proj''
         [shader_file ''basic.vert'' 7000000000, shader_file ''b.frag'' 0]
         (tracked_state ''/proj'' ''basic.vert'' 5000000000))
       \<lparr>parent_dir = ''/proj'', file_name = ''basic.vert''\<rparr>
       = Some \<lparr>LastWriteTime = 7000000000\<rparr>"
proof -
  have h1: "distinct (map entry_name [shader_file ''basic.vert'' 7000000000, shader_file ''b.frag'' 0])"
    by (simp add: shader_file_def)
  have h2: "shader_file ''basic.vert'' 7000000000
       \<in> set [shader_file ''basic.vert'' 7000000000, shader_file ''b.frag'' 0]"
    by simp
  have h3: "is_regular_file (shader_file ''basic.vert'' 7000000000)"
    by (simp add: shader_file_def)
  have h4: "path_extension (entry_name (shader_file ''basic.vert'' 7000000000))
       \<in> set (validFileExts example_config)"
    by (simp add: example_defs)
  have h5: "sShaderEntries (tracked_state ''/proj'' ''basic.vert'' 5000000000)
       (entry_path ''/proj'' (shader_file ''basic.vert'' 7000000000))
       = Some \<lparr>LastWriteTime = 5000000000\<rparr>"
    by (simp add: example_defs)
  show ?thesis
    using tracked_file_recompiled_iff[OF h1 h2 h3 h4 h5] h1 h2 h3 h4 h5
    by (simp add: example_defs)
qed

text \<open>
  The claim as first stated compares the elapsed time itself with one second. A file
  stored at tick 0 and modified one and a half seconds later has more than one second
  elapsed, the flag is not set, and the pass neither compiles it nor changes the stored
  time: the two times are seconds 0 and 1 once converted.
\<close>

theorem tracked_file_counterexample:
  "is_regular_file (shader_file ''basic.vert'' 1500000000)
   \<and> path_extension (entry_name (shader_file ''basic.vert'' 1500000000))
       \<in> set (validFileExts example_config)
   \<and> sShaderEntries (tracked_state ''/proj'' ''basic.vert'' 0)
       (entry_path ''/proj'' (shader_file ''basic.vert'' 1500000000)) = Some \<lparr>LastWriteTime = 0\<rparr>
   \<and> ticks_per_second
       < last_write_time (shader_file ''basic.vert'' 1500000000)
         - LastWriteTime \<lparr>LastWriteTime = 0\<rparr>
   \<and> \<not> sRecompile (tracked_state ''/proj'' ''basic.vert'' 0)
   \<and> compile_calls (tracked_state ''/proj'' ''basic.vert'' 0) = []
   \<and> compile_calls (watch_cycle example_config ''/proj''
         [shader_file ''basic.vert'' 1500000000] (tracked_state ''/proj'' ''basic.vert'' 0)) = []
   \<and> sShaderEntries (watch_cycle example_config ''/proj''
         [shader_file ''basic.vert'' 1500000000] (tracked_state ''/proj'' ''basic.vert'' 0))
       (entry_path ''/proj'' (shader_file ''basic.vert'' 1500000000)) = Some \<lparr>LastWriteTime = 0\<rparr>"
  by (simp add: example_defs watch_cycle_def process_entry_def compileShader_def)

section \<open>The first pass\<close>

text \<open>
  Claim C4. On the first pass (the map is empty and the first-iteration marker is set)
  over a directory listing, every regular file with a recognized extension gets an entry
  holding its current modification time; it is not compiled when \<open>CompileOnStartup\<close> is
  false, and is compiled exactly once when \<open>CompileOnStartup\<close> is true.
\<close>

theorem first_cycle_startup_policy:
  assumes "distinct (map entry_name entries)" and "p \<in> set entries"
    and "is_regular_file p"
    and "path_extension (entry_name p) \<in> set (validFileExts config)"
    and "sShaderEntries s = Map.empty" and "sFirstIteration s"
  shows "sShaderEntries (watch_cycle config dir entries s) (entry_path dir p)
           = Some \<lparr>LastWriteTime = last_write_time p\<rparr>
         \<and> count_list (compile_calls (watch_cycle config dir entries s)) (call_of p)
           = (if CompileOnStartup config then Suc (count_list (compile_calls s) (call_of p))
              else count_list (compile_calls s) (call_of p))"
proof -
  have none: "sShaderEntries s (entry_path dir p) = None"
    using assms(5) by simp
  show ?thesis
    using assms(6)
    by (simp add: watch_cycle_entry[OF assms(1,2)] process_entry_new[OF assms(3,4) none])
qed

theorem first_cycle_startup_policy_witness:
  "distinct (map entry_name [shader_file ''basic.vert'' 5000000000, shader_file ''notes.txt'' 1])
   \<and> shader_file ''basic.vert'' 5000000000
       \<in> set [shader_file ''basic.vert'' 5000000000, shader_file ''notes.txt'' 1]
   \<and> is_regular_file (shader_file ''basic.vert'' 5000000000)
   \<and> path_extension (entry_name (shader_file ''basic.vert'' 5000000000))
       \<in> set (validFileExts example_config)
   \<and> sShaderEntries initial_state = Map.empty
   \<and> sFirstIteration initial_state
   \<and> sShaderEntries (watch_cycle example_config ''/proj''
         [shader_file ''basic.vert'' 5000000000, shader_file ''notes.txt'' 1] initial_state)
       \<lparr>parent_dir = ''/proj'', file_name = ''basic.vert''\<rparr>
       = Some \<lparr>LastWriteTime = 5000000000\<rparr>
   \<and> count_list (compile_calls (watch_cycle example_config ''/proj''
         [shader_file ''basic.vert'' 5000000000, shader_file ''notes.txt'' 1] initial_state))
       (''basic'', ''.vert'') = 0
   \<and> count_list (compile_calls (watch_cycle (example_config\<lparr>CompileOnStartup := True\<rparr>) ''/proj''
         [shader_file ''basic.vert'' 5000000000, shader_file ''notes.txt'' 1] initial_state))
       (''basic'', ''.vert'') = 1"
proof -
  let ?es = "[shader_file ''basic.vert'' 5000000000, shader_file ''notes.txt'' 1]"
  let ?p = "shader_file ''basic.vert'' 5000000000"
  have h1: "distinct (map entry_name ?es)"
    by (simp add: shader_file_def)
  have h2: "?p \<in> set ?es"
    by simp
  have h3: "is_regular_file ?p"
    by (simp add: shader_file_def)
  have h4: "path_extension (entry_name ?p) \<in> set (validFileExts example_config)"
    by (simp add: example_defs)
  have h4': "path_extension (entry_name ?p)
       \<in> set (validFileExts (example_config\<lparr>CompileOnStartup := True\<rparr>))"
    by (simp add: example_defs)
  have h5: "sShaderEntries initial_state = Map.empty"
    by (simp add: initial_state_def)
  have h6: "sFirstIteration initial_state"
    by (simp add: initial_state_def)
  show ?thesis
    using first_cycle_startup_policy[OF h1 h2 h3 h4 h5 h6, of "''/proj''"]
      first_cycle_startup_policy[OF h1 h2 h3 h4' h5 h6, of "''/proj''"] h1 h2 h3 h4 h5 h6
    by (simp add: example_defs initial_state_def)
qed

section \<open>Forced recompiles\<close>

text \<open>
  Claim C5. After any pass, also one over an empty directory, the recompile flag and the
  first-iteration marker are both clear, and the marker stays clear however the loop goes
  on. When the recompile flag is set at the start of a pass, every regular file of the
  listing with a recognized extension that is already tracked is compiled exactly once
  in that pass.
\<close>

theorem forced_recompile_cycle:
  "\<not> sRecompile (watch_cycle config dir entries s)
   \<and> \<not> sFirstIteration (watch_cycle config dir entries s)
   \<and> (\<forall>obs. \<not> sFirstIteration (watchShaders config dir obs (watch_cycle config dir entries s)))
   \<and> (sRecompile s \<and> distinct (map entry_name entries) \<longrightarrow>
        (\<forall>p \<in> set entries.
           is_regular_file p \<and> path_extension (entry_name p) \<in> set (validFileExts config)
             \<and> entry_path dir p \<in> dom (sShaderEntries s) \<longrightarrow>
           count_list (compile_calls (watch_cycle config dir entries s)) (call_of p)
             = Suc (count_list (compile_calls s) (call_of p))))"
proof (intro conjI impI ballI allI)
  show "\<not> sRecompile (watch_cycle config dir entries s)"
    by (rule watch_cycle_flags)
  show "\<not> sFirstIteration (watch_cycle config dir entries s)"
    by (rule watch_cycle_flags)
  show "\<not> sFirstIteration (watchShaders config dir obs (watch_cycle config dir entries s))" for obs
    by (rule watchShaders_first) (rule watch_cycle_flags)
next
  fix p
  assume a: "sRecompile s \<and> distinct (map entry_name entries)" and p: "p \<in> set entries"
    and b: "is_regular_file p \<and> path_extension (entry_name p) \<in> set (validFileExts config)
             \<and> entry_path dir p \<in> dom (sShaderEntries s)"
  from b obtain entry where e: "sShaderEntries s (entry_path dir p) = Some entry"
    by auto
  have d: "distinct (map entry_name entries)" using a by simp
  have r: "is_regular_file p" "path_extension (entry_name p) \<in> set (validFileExts config)"
    using b by simp_all
  show "count_list (compile_calls (watch_cycle config dir entries s)) (call_of p)
          = Suc (count_list (compile_calls s) (call_of p))"
    using a by (simp add: watch_cycle_entry[OF d p] process_entry_tracked[OF r e])
qed

theorem forced_recompile_cycle_witness:
  "sRecompile ((tracked_state ''/proj'' ''a.vert'' 5000000000)\<lparr>sRecompile := True\<rparr>)
   \<and> distinct (map entry_name [shader_file ''a.vert'' 5000000000])
   \<and> is_regular_file (shader_file ''a.vert'' 5000000000)
   \<and> path_extension (entry_name (shader_file ''a.vert'' 5000000000))
       \<in> set (validFileExts example_config)
   \<and> entry_path ''/proj'' (shader_file ''a.vert'' 5000000000)
       \<in> dom (sShaderEntries ((tracked_state ''/proj'' ''a.vert'' 5000000000)\<lparr>sRecompile := True\<rparr>))
   \<and> count_list (compile_calls (watch_cycle example_config ''/proj''
         [shader_file ''a.vert'' 5000000000]
         ((tracked_state ''/proj'' ''a.vert'' 5000000000)\<lparr>sRecompile := True\<rparr>)))
       (''a'', ''.vert'') = 1
   \<and> \<not> sRecompile (watch_cycle example_config ''/proj'' [shader_file ''a.vert'' 5000000000]
         ((tracked_state ''/proj'' ''a.vert'' 5000000000)\<lparr>sRecompile := True\<rparr>))
   \<and> \<not> sFirstIteration (watch_cycle example_config ''/proj'' []
         (initial_state\<lparr>sRecompile := True\<rparr>))
   \<and> \<not> sRecompile (watch_cycle example_config ''/proj'' []
         (initial_state\<lparr>sRecompile := True\<rparr>))"
  using forced_recompile_cycle[of example_config "''/proj''" "[shader_file ''a.vert'' 5000000000]"
      "(tracked_state ''/proj'' ''a.vert'' 5000000000)\<lparr>sRecompile := True\<rparr>"]
    forced_recompile_cycle[of example_config "''/proj''" "[]" "initial_state\<lparr>sRecompile := True\<rparr>"]
  by (simp add: example_defs)

section \<open>Two passes without a change\<close>

text \<open>
  Claim C6. A second pass over the same directory listing (the same files with the same
  modification times), run on the state the first pass left, so with no recompile
  pending, makes no compile call and leaves the map as it is.
\<close>

theorem second_cycle_no_compiles:
  assumes "distinct (map entry_name entries)"
  shows "compile_calls (watch_cycle config dir entries (watch_cycle config dir entries s))
           = compile_calls (watch_cycle config dir entries s)
         \<and> sShaderEntries (watch_cycle config dir entries (watch_cycle config dir entries s))
           = sShaderEntries (watch_cycle config dir entries s)"
proof -
  have "foldl (process_entry config dir) (watch_cycle config dir entries s) entries
          = watch_cycle config dir entries s"
    by (rule foldl_fixed) (rule watch_cycle_settled[OF assms])
  then show ?thesis
    by (simp add: watch_cycle_def[of config dir entries "watch_cycle config dir entries s"])
qed

theorem second_cycle_no_compiles_witness:
  "distinct (map entry_name [shader_file ''a.vert'' 5000000000, shader_file ''b.frag'' 6000000000])
   \<and> compile_calls (watch_cycle (example_config\<lparr>CompileOnStartup := True\<rparr>) ''/proj''
        [shader_file ''a.vert'' 5000000000, shader_file ''b.frag'' 6000000000] initial_state)
       = [(''a'', ''.vert''), (''b'', ''.frag'')]
   \<and> compile_calls (watch_cycle (example_config\<lparr>CompileOnStartup := True\<rparr>) ''/proj''
        [shader_file ''a.vert'' 5000000000, shader_file ''b.frag'' 6000000000]
        (watch_cycle (example_config\<lparr>CompileOnStartup := True\<rparr>) ''/proj''
          [shader_file ''a.vert'' 5000000000, shader_file ''b.frag'' 6000000000] initial_state))
       = [(''a'', ''.vert''), (''b'', ''.frag'')]"
proof -
  let ?es = "[shader_file ''a.vert'' 5000000000, shader_file ''b.frag'' 6000000000]"
  let ?cfg = "example_config\<lparr>CompileOnStartup := True\<rparr>"
  have h1: "distinct (map entry_name ?es)"
    by (simp add: shader_file_def)
  have first: "compile_calls (watch_cycle ?cfg ''/proj'' ?es initial_state)
       = [(''a'', ''.vert''), (''b'', ''.frag'')]"
    by (simp add: example_defs initial_state_def watch_cycle_def process_entry_def
        compileShader_def)
  show ?thesis
    using second_cycle_no_compiles[OF h1, of ?cfg "''/proj''" initial_state] h1 first
    by simp
qed

section \<open>Files with other extensions\<close>

text \<open>
  Claim C7. A file name whose extension is none of the four configured ones is never
  added to the map and never compiled: over any run of the loop, whatever the directory
  holds at each pass and whatever the user types, its map slot and the number of its
  compiles stay what they were.
\<close>

theorem unrecognized_never_tracked_or_compiled:
  assumes "path_extension n \<notin> set (validFileExts config)"
  shows "sShaderEntries (watchShaders config dir obs s) \<lparr>parent_dir = dir, file_name = n\<rparr>
           = sShaderEntries s \<lparr>parent_dir = dir, file_name = n\<rparr>
         \<and> count_list (compile_calls (watchShaders config dir obs s))
              (path_stem n, path_extension n)
           = count_list (compile_calls s) (path_stem n, path_extension n)"
proof (induction obs arbitrary: s)
  case Nil
  then show ?case by simp
next
  case (Cons ob obs)
  show ?case
    by (simp add: Let_def user_input_frame Cons.IH watch_cycle_unrecognized[OF assms])
qed

theorem unrecognized_never_tracked_witness:
  "path_extension ''notes.txt'' \<notin> set (validFileExts example_config)
   \<and> sShaderEntries
       (watchShaders example_config ''/proj''
          [\<lparr>typed = [''-r''], files = (\<lambda>dir. [shader_file ''notes.txt'' 5000000000])\<rparr>,
           \<lparr>typed = [], files = (\<lambda>dir. [shader_file ''notes.txt'' 9000000000])\<rparr>]
          initial_state)
       \<lparr>parent_dir = ''/proj'', file_name = ''notes.txt''\<rparr> = None
   \<and> count_list (compile_calls
       (watchShaders example_config ''/proj''
          [\<lparr>typed = [''-r''], files = (\<lambda>dir. [shader_file ''notes.txt'' 5000000000])\<rparr>,
           \<lparr>typed = [], files = (\<lambda>dir. [shader_file ''notes.txt'' 9000000000])\<rparr>]
          initial_state)) (''notes'', ''.txt'') = 0"
proof -
  have h: "path_extension ''notes.txt'' \<notin> set (validFileExts example_config)"
    by (simp add: example_defs)
  have st: "path_stem ''notes.txt'' = ''notes''" "path_extension ''notes.txt'' = ''.txt''"
    by (simp_all add: example_defs)
  show ?thesis
    using unrecognized_never_tracked_or_compiled[OF h, of "''/proj''"
        "[\<lparr>typed = [''-r''], files = (\<lambda>dir. [shader_file ''notes.txt'' 5000000000])\<rparr>,
          \<lparr>typed = [], files = (\<lambda>dir. [shader_file ''notes.txt'' 9000000000])\<rparr>]"
        initial_state] h
    by (simp add: st initial_state_def)
qed

section \<open>Lines without an equals sign\<close>

text \<open>
  Claim C8, as amended. A line of the configuration file with no \<open>=\<close> never makes
  the parse fail. Unless it starts with \<open>#\<close>, the line is stored as a key whose value
  is the whole line, which is the empty string only when the line is empty; a line that
  starts with \<open>#\<close> stores nothing.
\<close>

theorem line_without_equals_stores_whole_line:
  assumes "CHR ''='' \<notin> set line"
  shows "parse_line m line
           = Inr (if first_char line \<noteq> CHR ''#'' then m(line \<mapsto> line) else m)"
  using assms by (simp add: parse_line_def string_find_absent substr_def npos_def)

theorem line_without_equals_witness:
  "CHR ''='' \<notin> set ''vs_ext''
   \<and> parse_line Map.empty ''vs_ext'' = Inr [''vs_ext'' \<mapsto> ''vs_ext'']"
  using line_without_equals_stores_whole_line[of "''vs_ext''" Map.empty]
  by (simp add: first_char_def)

text \<open>
  The claim as first stated gives the empty string as the stored value. The line
  \<open>vs_ext\<close> has no \<open>=\<close>; it is stored with the value \<open>vs_ext\<close>, which becomes
  the vertex shader extension of the configuration.
\<close>

theorem line_without_equals_counterexample:
  "CHR ''='' \<notin> set ''vs_ext''
   \<and> parseIniFile [''vs_ext''] = Inr (config_of [''vs_ext'' \<mapsto> ''vs_ext''])
   \<and> VSExt (config_of [''vs_ext'' \<mapsto> ''vs_ext'']) = ''vs_ext''
   \<and> ''vs_ext'' \<noteq> []"
  by (simp add: parseIniFile_def parse_line_def string_find_def substr_def npos_def
      first_char_def config_of_def map_index_def)

section \<open>The output path test\<close>

text \<open>A path of one character or more is read within bounds.\<close>

lemma output_path_nonempty_defined:
  "out \<noteq> [] \<Longrightarrow> \<exists>b. output_path_is_relative out = Inr b"
  by (cases out) (auto simp: output_path_is_relative_def string_index_def)

text \<open>
  Claim C9. The test of \<open>spirv_output_path\<close> in \<open>main\<close> should read only characters of the
  string, also when it has length 0. A configuration file without the key
  \<open>spirv_output_path\<close> gives the empty string; its character 0 is the terminating null,
  which is neither a slash nor a backslash, so the test goes on to read character 1,
  beyond the end of the string.
\<close>

theorem output_path_empty_reads_out_of_bounds:
  "parseIniFile [''vs_ext=.vert''] = Inr (config_of [''vs_ext'' \<mapsto> ''.vert''])
   \<and> SPIRVOutputPath (config_of [''vs_ext'' \<mapsto> ''.vert'']) = []
   \<and> output_path_is_relative [] = Inl OutOfBoundsRead
   \<and> main ''/proj'' (Some [''vs_ext=.vert'']) [] = Inl OutOfBoundsRead"
  by (simp add: main_def parseIniFile_def parse_line_def string_find_def substr_def npos_def
      first_char_def config_of_def map_index_def output_path_is_relative_def string_index_def)

section \<open>Empty extensions\<close>

text \<open>
  Claim C10. When one of the four configured extensions is the empty string, every
  regular file of the listing whose name has no extension is recognized and is a key of
  the map after the pass; it is compiled once in the pass when it was new and the pass is
  not the first one (or \<open>CompileOnStartup\<close> is set), and when it was already tracked and
  the recompile flag is set.
\<close>

theorem empty_extension_matches_extensionless_files:
  assumes "VSExt config = [] \<or> FSExt config = [] \<or> GSExt config = [] \<or> CSExt config = []"
    and "is_regular_file p" and "path_extension (entry_name p) = []"
    and "distinct (map entry_name entries)" and "p \<in> set entries"
  shows "path_extension (entry_name p) \<in> set (validFileExts config)
         \<and> entry_path dir p \<in> dom (sShaderEntries (watch_cycle config dir entries s))
         \<and> (sShaderEntries s (entry_path dir p) = None
              \<and> (\<not> sFirstIteration s \<or> CompileOnStartup config) \<longrightarrow>
            count_list (compile_calls (watch_cycle config dir entries s)) (call_of p)
              = Suc (count_list (compile_calls s) (call_of p)))
         \<and> (sShaderEntries s (entry_path dir p) \<noteq> None \<and> sRecompile s \<longrightarrow>
            count_list (compile_calls (watch_cycle config dir entries s)) (call_of p)
              = Suc (count_list (compile_calls s) (call_of p)))"
proof -
  have r: "path_extension (entry_name p) \<in> set (validFileExts config)"
    using assms(1,3) by (auto simp: validFileExts_def)
  show ?thesis
  proof (cases "sShaderEntries s (entry_path dir p)")
    case None
    then show ?thesis
      using r by (simp add: watch_cycle_entry[OF assms(4,5)] process_entry_new[OF assms(2) r None] domIff)
  next
    case (Some entry)
    then show ?thesis
      using r by (simp add: watch_cycle_entry[OF assms(4,5)] process_entry_tracked[OF assms(2) r Some] domIff)
  qed
qed

text \<open>
  A configuration file without the keys \<open>fs_ext\<close>, \<open>gs_ext\<close> and \<open>cs_ext\<close> leaves these
  extensions empty, and the file \<open>Makefile\<close> is then tracked and compiled.
\<close>

theorem empty_extension_witness:
  "parseIniFile [''vs_ext=.vert'', ''spirv_output_path=spirv'']
     = Inr (config_of [''vs_ext'' \<mapsto> ''.vert'', ''spirv_output_path'' \<mapsto> ''spirv''])
   \<and> CSExt (config_of [''vs_ext'' \<mapsto> ''.vert'', ''spirv_output_path'' \<mapsto> ''spirv'']) = []
   \<and> is_regular_file (shader_file ''Makefile'' 5000000000)
   \<and> path_extension (entry_name (shader_file ''Makefile'' 5000000000)) = []
   \<and> distinct (map entry_name [shader_file ''Makefile'' 5000000000])
   \<and> sShaderEntries (initial_state\<lparr>sFirstIteration := False\<rparr>)
       (entry_path ''/proj'' (shader_file ''Makefile'' 5000000000)) = None
   \<and> \<lparr>parent_dir = ''/proj'', file_name = ''Makefile''\<rparr>
       \<in> dom (sShaderEntries (watch_cycle
            (config_of [''vs_ext'' \<mapsto> ''.vert'', ''spirv_output_path'' \<mapsto> ''spirv'']) ''/proj''
            [shader_file ''Makefile'' 5000000000] (initial_state\<lparr>sFirstIteration := False\<rparr>)))
   \<and> count_list (compile_calls (watch_cycle
            (config_of [''vs_ext'' \<mapsto> ''.vert'', ''spirv_output_path'' \<mapsto> ''spirv'']) ''/proj''
            [shader_file ''Makefile'' 5000000000] (initial_state\<lparr>sFirstIteration := False\<rparr>)))
       (''Makefile'', []) = 1"
proof -
  let ?cfg = "config_of [''vs_ext'' \<mapsto> ''.vert'', ''spirv_output_path'' \<mapsto> ''spirv'']"
  let ?p = "shader_file ''Makefile'' 5000000000"
  have p: "parseIniFile [''vs_ext=.vert'', ''spirv_output_path=spirv''] = Inr ?cfg"
    by (simp add: parseIniFile_def parse_line_def string_find_def substr_def npos_def
        first_char_def fun_upd_twist)
  have h1: "VSExt ?cfg = [] \<or> FSExt ?cfg = [] \<or> GSExt ?cfg = [] \<or> CSExt ?cfg = []"
    by (simp add: config_of_def map_index_def)
  have c: "CSExt ?cfg = []"
    by (simp add: config_of_def map_index_def)
  have h2: "is_regular_file ?p"
    by (simp add: shader_file_def)
  have h3: "path_extension (entry_name ?p) = []"
    by (simp add: example_defs)
  have h4: "distinct (map entry_name [?p])"
    by simp
  have h5: "?p \<in> set [?p]"
    by simp
  have n: "sShaderEntries (initial_state\<lparr>sFirstIteration := False\<rparr>) (entry_path ''/proj'' ?p) = None"
    by (simp add: initial_state_def)
  have st: "call_of ?p = (''Makefile'', [])" "entry_path ''/proj'' ?p = \<lparr>parent_dir = ''/proj'', file_name = ''Makefile''\<rparr>"
    by (simp_all add: example_defs)
  show ?thesis
    using empty_extension_matches_extensionless_files[OF h1 h2 h3 h4 h5, of "''/proj''"
        "initial_state\<lparr>sFirstIteration := False\<rparr>"] p c h2 h3 h4 n
    by (simp add: st initial_state_def)
qed

end
